theory Spec2Isabelle
  imports Complex_Main "HOL-Library.Multiset"
begin

section \<open>JavaScript values\<close>

text \<open>
  The goods service takes its arguments as \<^verbatim>\<open>any\<close>, so the model works on untyped
  JavaScript values. A number is an IEEE double: a finite value (idealised as a real), one
  of the two infinities, or NaN. An object is the list of its own properties in insertion
  order; a lookup takes the first entry of a key and a delete drops every entry of it, so
  a list is read as the object with those properties.
\<close>

datatype number = Fin real | PosInf | NegInf | NaN

datatype jsval =
    JUndefined
  | JNull
  | JBool bool
  | JNum number
  | JStr string
  | JArr "jsval list"
  | JObj "(string \<times> jsval) list"

text \<open>What escapes a function as an exception.\<close>

datatype error = TypeError | RepositoryError

text \<open>\<^verbatim>\<open>n <= 0\<close> and \<^verbatim>\<open>n > 0\<close> on doubles: every comparison with NaN is false.\<close>

fun num_le_zero :: "number \<Rightarrow> bool" where
  "num_le_zero (Fin r) = (r \<le> 0)"
| "num_le_zero NegInf = True"
| "num_le_zero PosInf = False"
| "num_le_zero NaN = False"

fun num_gt_zero :: "number \<Rightarrow> bool" where
  "num_gt_zero (Fin r) = (0 < r)"
| "num_gt_zero PosInf = True"
| "num_gt_zero NegInf = False"
| "num_gt_zero NaN = False"

text \<open>
  The service compares a value with 0 only behind a \<^verbatim>\<open>typeof v === 'number'\<close> test, so
  the two comparisons are defined on numbers; the other equations are never reached.
\<close>

fun le_zero :: "jsval \<Rightarrow> bool" where
  "le_zero (JNum n) = num_le_zero n"
| "le_zero _ = False"

fun gt_zero :: "jsval \<Rightarrow> bool" where
  "gt_zero (JNum n) = num_gt_zero n"
| "gt_zero _ = False"

fun typeof :: "jsval \<Rightarrow> string" where
  "typeof JUndefined = ''undefined''"
| "typeof JNull = ''object''"
| "typeof (JBool _) = ''boolean''"
| "typeof (JNum _) = ''number''"
| "typeof (JStr _) = ''string''"
| "typeof (JArr _) = ''object''"
| "typeof (JObj _) = ''object''"

text \<open>The condition of \<^verbatim>\<open>if (v)\<close> and \<^verbatim>\<open>v ? a : b\<close>.\<close>

fun truthy :: "jsval \<Rightarrow> bool" where
  "truthy JUndefined = False"
| "truthy JNull = False"
| "truthy (JBool b) = b"
| "truthy (JNum n) = (if n = Fin 0 then False else if n = NaN then False else True)"
| "truthy (JStr s) = (if s = [] then False else True)"
| "truthy (JArr _) = True"
| "truthy (JObj _) = True"

text \<open>
  \<^verbatim>\<open>v.k\<close> and \<^verbatim>\<open>v['k']\<close>: reading a property of \<^verbatim>\<open>undefined\<close> or \<^verbatim>\<open>null\<close> throws a
  TypeError. The service reads only the names \<^verbatim>\<open>name\<close>, \<^verbatim>\<open>type\<close>, \<^verbatim>\<open>cost\<close>,
  \<^verbatim>\<open>processTime\<close>, \<^verbatim>\<open>vendor\<close>, \<^verbatim>\<open>price\<close>, \<^verbatim>\<open>properties\<close>, \<^verbatim>\<open>components\<close>,
  \<^verbatim>\<open>value\<close>, \<^verbatim>\<open>id\<close>, \<^verbatim>\<open>quantity\<close> and \<^verbatim>\<open>archive\<close>; none of them is a property of
  a primitive, of an array or of a prototype, so they are \<^verbatim>\<open>undefined\<close> on everything
  but an object that has them.
\<close>

fun getProp :: "jsval \<Rightarrow> string \<Rightarrow> error + jsval" where
  "getProp JUndefined k = Inl TypeError"
| "getProp JNull k = Inl TypeError"
| "getProp (JObj fs) k = Inr (case map_of fs k of None \<Rightarrow> JUndefined | Some v \<Rightarrow> v)"
| "getProp _ k = Inr JUndefined"

text \<open>The same read, for a place the code reaches only after an earlier read succeeded.\<close>

definition prop_of :: "jsval \<Rightarrow> string \<Rightarrow> jsval" where
  "prop_of v k = (case getProp v k of Inl e \<Rightarrow> JUndefined | Inr x \<Rightarrow> x)"

text \<open>\<^verbatim>\<open>delete v['k']\<close>: removes the own property; no effect on a value that has none.\<close>

fun deleteProp :: "jsval \<Rightarrow> string \<Rightarrow> jsval" where
  "deleteProp (JObj fs) k = JObj (filter (\<lambda>kv. fst kv \<noteq> k) fs)"
| "deleteProp v k = v"

text \<open>The own properties of a value, as a map.\<close>

fun ownProps :: "jsval \<Rightarrow> string \<Rightarrow> jsval option" where
  "ownProps (JObj fs) = map_of fs"
| "ownProps _ = Map.empty"

section \<open>Configuration\<close>

text \<open>\<^verbatim>\<open>config.good.types\<close> of \<^verbatim>\<open>src/backend/config.ts\<close>.\<close>

definition config_good_types :: "string list" where
  "config_good_types = [''raw'', ''semi-finished'', ''finished'']"

text \<open>\<^verbatim>\<open>xs.includes(v)\<close> on an array of strings: strict equality with one of them.\<close>

fun js_includes :: "string list \<Rightarrow> jsval \<Rightarrow> bool" where
  "js_includes xs (JStr s) = (s \<in> set xs)"
| "js_includes xs _ = False"

section \<open>Redaction\<close>

text \<open>
  \<^verbatim>\<open>cleanUpGood\<close>: the switch on \<^verbatim>\<open>good.type\<close> with its three cases; a value of any other
  type falls through the switch. The object is changed in place and returned, so the
  result is the value of the argument after the call.
\<close>

definition cleanUpGood :: "jsval \<Rightarrow> error + jsval" where
  "cleanUpGood g =
     (case getProp g ''type'' of
        Inl e \<Rightarrow> Inl e
      | Inr t \<Rightarrow>
          if t = JStr ''raw'' then Inr (deleteProp g ''price'')
          else if t = JStr ''semi-finished'' then
            Inr (deleteProp (deleteProp g ''price'') ''vendor'')
          else if t = JStr ''finished'' then Inr (deleteProp g ''vendor'')
          else Inr g)"

section \<open>Structural validation\<close>

text \<open>\<^verbatim>\<open>validateProperties\<close>: both fields are read, so a null entry throws.\<close>

definition validateProperties :: "jsval \<Rightarrow> error + bool" where
  "validateProperties property =
     (case getProp property ''name'' of
        Inl e \<Rightarrow> Inl e
      | Inr name \<Rightarrow>
          Inr (typeof name = ''string'' \<and> typeof (prop_of property ''value'') = ''string''))"

definition validateComponent :: "jsval \<Rightarrow> error + bool" where
  "validateComponent component =
     (case getProp component ''id'' of
        Inl e \<Rightarrow> Inl e
      | Inr i \<Rightarrow>
          Inr (typeof i = ''number'' \<and> gt_zero i \<and>
               typeof (prop_of component ''quantity'') = ''number'' \<and>
               gt_zero (prop_of component ''quantity'')))"

text \<open>
  The loop \<^verbatim>\<open>xs.forEach(x => { if (!check(x)) valid = false; })\<close>: every element is
  visited, the flag only ever goes down, and an exception of the callback ends the loop.
\<close>

fun forEach_valid :: "(jsval \<Rightarrow> error + bool) \<Rightarrow> jsval list \<Rightarrow> bool \<Rightarrow> error + bool" where
  "forEach_valid check [] valid = Inr valid"
| "forEach_valid check (x # xs) valid =
     (case check x of
        Inl e \<Rightarrow> Inl e
      | Inr ok \<Rightarrow> forEach_valid check xs (if ok then valid else False))"

text \<open>
  \<^verbatim>\<open>if (v) { let valid = true; v.forEach(...); if (!valid) return false; }\<close>: the result
  is whether validation goes on. Only an array has a \<^verbatim>\<open>forEach\<close>; calling it on any
  other truthy value throws a TypeError.
\<close>

fun checkEntries :: "(jsval \<Rightarrow> error + bool) \<Rightarrow> jsval \<Rightarrow> error + bool" where
  "checkEntries check (JArr xs) = forEach_valid check xs True"
| "checkEntries check v = (if truthy v then Inl TypeError else Inr True)"

definition validateGoodFormat :: "jsval \<Rightarrow> error + bool" where
  "validateGoodFormat g =
     (case getProp g ''name'' of
        Inl e \<Rightarrow> Inl e
      | Inr name \<Rightarrow>
          if typeof name \<noteq> ''string'' then Inr False
          else if typeof (prop_of g ''type'') \<noteq> ''string'' then Inr False
          else if typeof (prop_of g ''processTime'') \<noteq> ''number'' then Inr False
          else if typeof (prop_of g ''cost'') \<noteq> ''number'' then Inr False
          else if le_zero (prop_of g ''cost'') then Inr False
          else if le_zero (prop_of g ''processTime'') then Inr False
          else if \<not> js_includes config_good_types (prop_of g ''type'') then Inr False
          else if prop_of g ''type'' = JStr ''raw'' \<and>
                  typeof (prop_of g ''vendor'') \<noteq> ''string'' then Inr False
          else if prop_of g ''type'' = JStr ''finished'' \<and>
                  typeof (prop_of g ''price'') \<noteq> ''number'' then Inr False
          else if prop_of g ''type'' = JStr ''finished'' \<and>
                  le_zero (prop_of g ''price'') then Inr False
          else
            (case checkEntries validateProperties (prop_of g ''properties'') of
               Inl e \<Rightarrow> Inl e
             | Inr validProperties \<Rightarrow>
                 if \<not> validProperties then Inr False
                 else
                   (case checkEntries validateComponent (prop_of g ''components'') of
                      Inl e \<Rightarrow> Inl e
                    | Inr validComponents \<Rightarrow>
                        if \<not> validComponents then Inr False else Inr True)))"

section \<open>The repository and the result envelopes\<close>

text \<open>
  The goods models (\<^verbatim>\<open>good.models\<close>) are not part of the service: they are a parameter.
  \<^verbatim>\<open>GoodModel.findById(id)\<close> gives a row or \<^verbatim>\<open>undefined\<close>, or throws;
  \<^verbatim>\<open>new RawModel(good).save()\<close> and its two siblings save or throw;
  \<^verbatim>\<open>GoodModel.archive(id, archive)\<close> gives the number of rows it changed, or throws;
  \<^verbatim>\<open>GoodModel.getAllGoods()\<close> and \<^verbatim>\<open>GoodModel.getByType(type)\<close> give an array of rows, or
  throw. The service calls \<^verbatim>\<open>getByType\<close> with the type alone or with a second argument
  \<^verbatim>\<open>true\<close> for the archived goods: the boolean says whether \<^verbatim>\<open>true\<close> was passed.
  The lookups of one component check run concurrently: \<open>completion\<close> gives the order in
  which they complete, as positions in the list of ids that are looked up.
\<close>

datatype model = RawModel | SemiModel | FinishModel

record repository =
  GoodModel_findById :: "jsval \<Rightarrow> error + jsval"
  Model_save :: "model \<Rightarrow> jsval \<Rightarrow> error + unit"
  GoodModel_archive :: "jsval \<Rightarrow> jsval \<Rightarrow> error + jsval"
  completion :: "jsval list \<Rightarrow> nat list"
  GoodModel_getAllGoods :: "error + jsval list"
  GoodModel_getByType :: "jsval \<Rightarrow> bool \<Rightarrow> error + jsval list"

text \<open>The calls a service operation makes on the repository, in the order it issues them.\<close>

datatype call =
    FindById jsval
  | Save model jsval
  | Archive jsval jsval
  | GetAllGoods
  | GetByType jsval bool

text \<open>
  A message is a string literal, a payload, or a template literal. The rendering of a
  number inside a template is not modelled: a template keeps its holes as values.
\<close>

datatype piece = Lit string | Hole jsval | Join "jsval list" string

datatype msg = Text string | Payload jsval | Template "piece list"

record envelope =
  status :: bool
  message :: msg

record add_envelope = envelope +
  good :: jsval

text \<open>
  \<^verbatim>\<open>Promise.all\<close> over promises that are all started: the results in the order of the
  promises, or the rejection of a promise that rejects. \<open>array_map\<close> is \<^verbatim>\<open>xs.map(f)\<close> with
  a callback that may throw.
\<close>

fun promise_all :: "(error + 'a) list \<Rightarrow> error + 'a list" where
  "promise_all [] = Inr []"
| "promise_all (p # ps) =
     (case p of
        Inl e \<Rightarrow> Inl e
      | Inr x \<Rightarrow> (case promise_all ps of Inl e \<Rightarrow> Inl e | Inr xs \<Rightarrow> Inr (x # xs)))"

fun array_map :: "('a \<Rightarrow> error + 'b) \<Rightarrow> 'a list \<Rightarrow> error + 'b list" where
  "array_map f [] = Inr []"
| "array_map f (x # xs) =
     (case f x of
        Inl e \<Rightarrow> Inl e
      | Inr y \<Rightarrow> (case array_map f xs of Inl e \<Rightarrow> Inl e | Inr ys \<Rightarrow> Inr (y # ys)))"

section \<open>The goods service\<close>

text \<open>
  \<^verbatim>\<open>getSingleGood\<close>: one lookup; a row is redacted and returned, a miss and a thrown
  error both give an envelope of status false, with different messages.
\<close>

definition getSingleGood :: "repository \<Rightarrow> jsval \<Rightarrow> envelope \<times> call list" where
  "getSingleGood env i =
     ((case GoodModel_findById env i of
         Inl e \<Rightarrow>
           \<lparr>status = False,
            message = Template [Lit ''Failed while getting good with id '', Hole i]\<rparr>
       | Inr row \<Rightarrow>
           if truthy row then
             (case cleanUpGood row of
                Inl e \<Rightarrow>
                  \<lparr>status = False,
                   message = Template [Lit ''Failed while getting good with id '', Hole i]\<rparr>
              | Inr cleaned \<Rightarrow> \<lparr>status = True, message = Payload cleaned\<rparr>)
           else
             \<lparr>status = False,
              message = Template [Lit ''Good with id: '', Hole i, Lit '' not found'']\<rparr>),
      [FindById i])"

text \<open>\<^verbatim>\<open>cleanUpMultipleOfGoods\<close>: the redaction of every element, in order.\<close>

definition cleanUpMultipleOfGoods :: "jsval list \<Rightarrow> error + jsval list" where
  "cleanUpMultipleOfGoods goods = array_map cleanUpGood goods"

text \<open>
  \<^verbatim>\<open>getAllGoods\<close>, \<^verbatim>\<open>getAllGoodsOfType\<close> and \<^verbatim>\<open>getAllArchivedGoodsOfType\<close>: the rows are
  fetched and redacted inside the try block, so an error of the repository and an
  exception of the redaction both give the failure envelope.
\<close>

definition getAllGoods :: "repository \<Rightarrow> envelope \<times> call list" where
  "getAllGoods env =
     ((case GoodModel_getAllGoods env of
         Inl e \<Rightarrow>
           \<lparr>status = False, message = Template [Lit ''Failed while getting all goods'']\<rparr>
       | Inr goods \<Rightarrow>
           (case cleanUpMultipleOfGoods goods of
              Inl e \<Rightarrow>
                \<lparr>status = False,
                 message = Template [Lit ''Failed while getting all goods'']\<rparr>
            | Inr cleaned \<Rightarrow> \<lparr>status = True, message = Payload (JArr cleaned)\<rparr>)),
      [GetAllGoods])"

definition getAllGoodsOfType :: "repository \<Rightarrow> jsval \<Rightarrow> envelope \<times> call list" where
  "getAllGoodsOfType env type =
     ((case GoodModel_getByType env type False of
         Inl e \<Rightarrow>
           \<lparr>status = False,
            message = Template [Lit ''Failed while getting goods with type '', Hole type]\<rparr>
       | Inr goods \<Rightarrow>
           (case cleanUpMultipleOfGoods goods of
              Inl e \<Rightarrow>
                \<lparr>status = False,
                 message = Template [Lit ''Failed while getting goods with type '',
                                     Hole type]\<rparr>
            | Inr cleaned \<Rightarrow> \<lparr>status = True, message = Payload (JArr cleaned)\<rparr>)),
      [GetByType type False])"

definition getAllArchivedGoodsOfType :: "repository \<Rightarrow> jsval \<Rightarrow> envelope \<times> call list" where
  "getAllArchivedGoodsOfType env type =
     ((case GoodModel_getByType env type True of
         Inl e \<Rightarrow>
           \<lparr>status = False,
            message = Template [Lit ''Failed while getting archived goods with type '',
                                Hole type]\<rparr>
       | Inr goods \<Rightarrow>
           (case cleanUpMultipleOfGoods goods of
              Inl e \<Rightarrow>
                \<lparr>status = False,
                 message = Template [Lit ''Failed while getting archived goods with type '',
                                     Hole type]\<rparr>
            | Inr cleaned \<Rightarrow> \<lparr>status = True, message = Payload (JArr cleaned)\<rparr>)),
      [GetByType type True])"

text \<open>
  \<^verbatim>\<open>checkIfComponentExists\<close>: the ids are read first; then one \<^verbatim>\<open>getSingleGood\<close> per
  entry of \<^verbatim>\<open>onlyId\<close> is started, in order, and each one that completes with status false
  pushes its id, so the result lists them in completion order.
\<close>

fun checkIfComponentExists ::
    "repository \<Rightarrow> jsval \<Rightarrow> (error + jsval list) \<times> call list" where
  "checkIfComponentExists env (JArr components) =
     (case array_map (\<lambda>c. getProp c ''id'') components of
        Inl e \<Rightarrow> (Inl e, [])
      | Inr onlyId \<Rightarrow>
          (Inr (map (\<lambda>n. onlyId ! n)
                 (filter (\<lambda>n. n < length onlyId \<and>
                               \<not> status (fst (getSingleGood env (onlyId ! n))))
                    (completion env onlyId))),
           concat (map (\<lambda>i. snd (getSingleGood env i)) onlyId)))"
| "checkIfComponentExists env v = (Inl TypeError, [])"

text \<open>
  \<^verbatim>\<open>archiveGood\<close>: the whole body is inside the try block, so nothing escapes it.
\<close>

definition archiveGood :: "repository \<Rightarrow> jsval \<Rightarrow> jsval \<Rightarrow> envelope \<times> call list" where
  "archiveGood env i archive =
     (let direction = (if truthy archive then ''archive'' else ''un-archive'') in
      ((case GoodModel_archive env i archive of
          Inl e \<Rightarrow>
            \<lparr>status = False,
             message = Template [Lit ''Failed to '', Lit direction, Lit '' good with id '',
                                 Hole i]\<rparr>
        | Inr changed \<Rightarrow>
            if truthy changed then
              \<lparr>status = True,
               message = Template [Lit direction, Lit '' successfull for good with id: '',
                                   Hole i]\<rparr>
            else
              \<lparr>status = False,
               message = Template [Lit ''Failed to '', Lit direction, Lit '' good with id '',
                                   Hole i, Lit '', good not found'']\<rparr>),
       [Archive i archive]))"

text \<open>
  \<^verbatim>\<open>archiveMultipleGoods\<close>: each callback reads \<^verbatim>\<open>good.id\<close> and \<^verbatim>\<open>good.archive\<close>, which
  throws on a null entry and rejects that callback's promise.
\<close>

definition archiveMultipleGoods :: "repository \<Rightarrow> jsval list \<Rightarrow> error + envelope list" where
  "archiveMultipleGoods env goods =
     promise_all
       (map (\<lambda>g. case getProp g ''id'' of
                    Inl e \<Rightarrow> Inl e
                  | Inr i \<Rightarrow> Inr (fst (archiveGood env i (prop_of g ''archive''))))
          goods)"

text \<open>
  The try block of \<^verbatim>\<open>addSingleGood\<close>: the switch on the type picks the model to save; an
  exception of the save is caught and reported.
\<close>

definition saveGood :: "repository \<Rightarrow> jsval \<Rightarrow> add_envelope \<times> call list" where
  "saveGood env g =
     (let saved = \<lparr>status = True, message = Text ''Successfully saved new good'', good = g\<rparr>;
          failed = \<lparr>status = False, message = Text ''Failed while saving good'', good = g\<rparr>;
          save_as = (\<lambda>m. case Model_save env m g of
                             Inl e \<Rightarrow> (failed, [Save m g])
                           | Inr u \<Rightarrow> (saved, [Save m g]))
      in if prop_of g ''type'' = JStr ''raw'' then save_as RawModel
         else if prop_of g ''type'' = JStr ''semi-finished'' then save_as SemiModel
         else if prop_of g ''type'' = JStr ''finished'' then save_as FinishModel
         else (saved, []))"

text \<open>
  \<^verbatim>\<open>addSingleGood\<close>: validation and the component check are outside the try block, so
  what they throw escapes.
\<close>

definition addSingleGood :: "repository \<Rightarrow> jsval \<Rightarrow> (error + add_envelope) \<times> call list" where
  "addSingleGood env g =
     (case validateGoodFormat g of
        Inl e \<Rightarrow> (Inl e, [])
      | Inr valid \<Rightarrow>
          if \<not> valid then
            (Inr \<lparr>status = False, message = Text ''Failed while validating good'', good = g\<rparr>,
             [])
          else if truthy (prop_of g ''components'') then
            (case checkIfComponentExists env (prop_of g ''components'') of
               (Inl e, calls) \<Rightarrow> (Inl e, calls)
             | (Inr notExist, calls) \<Rightarrow>
                 if length notExist > 0 then
                   (Inr \<lparr>status = False,
                         message = Template [Lit ''Failed to save component: '',
                                             Join notExist '', '', Lit '' does not exist''],
                         good = g\<rparr>,
                    calls)
                 else
                   (Inr (fst (saveGood env g)), calls @ snd (saveGood env g)))
          else (Inr (fst (saveGood env g)), snd (saveGood env g)))"

text \<open>\<^verbatim>\<open>addBulkGoods\<close>: one \<^verbatim>\<open>addSingleGood\<close> per element, joined by \<^verbatim>\<open>Promise.all\<close>.\<close>

definition addBulkGoods :: "repository \<Rightarrow> jsval list \<Rightarrow> error + add_envelope list" where
  "addBulkGoods env goods = promise_all (map (\<lambda>g. fst (addSingleGood env g)) goods)"

section \<open>Notions of the specification and example inputs\<close>

text \<open>
  A lookup that is answered and finds no good: the repository gives a falsy value
  (\<^verbatim>\<open>undefined\<close>) and does not throw.
\<close>

definition not_found :: "repository \<Rightarrow> jsval \<Rightarrow> bool" where
  "not_found env i =
     (case GoodModel_findById env i of Inl e \<Rightarrow> False | Inr row \<Rightarrow> \<not> truthy row)"

text \<open>
  Rows as the repository returns them, with both optional fields set; the second is an
  archived row.
\<close>

definition row_of_type :: "string \<Rightarrow> jsval" where
  "row_of_type t =
     JObj [(''id'', JNum (Fin 3)), (''name'', JStr ''Item''), (''type'', JStr t),
           (''price'', JNum (Fin 9)), (''vendor'', JStr ''Acme''), (''archived'', JBool False)]"

definition retired_row_of_type :: "string \<Rightarrow> jsval" where
  "retired_row_of_type t =
     JObj [(''id'', JNum (Fin 4)), (''name'', JStr ''Old item''), (''type'', JStr t),
           (''price'', JNum (Fin 2)), (''vendor'', JStr ''Acme''), (''archived'', JBool True)]"

text \<open>
  A repository that holds a raw good of id 7, a good of id 3 whose type is
  \<^verbatim>\<open>service\<close> and an archived good of id 4 of that type; it saves and archives without
  error, and completes concurrent lookups in the reverse of the order they were started
  in.
\<close>

definition stock :: repository where
  "stock =
     \<lparr>GoodModel_findById =
        (\<lambda>i. if i = JNum (Fin 7)
              then Inr (JObj [(''id'', JNum (Fin 7)), (''name'', JStr ''Bolt''),
                              (''type'', JStr ''raw''), (''cost'', JNum (Fin 2)),
                              (''processTime'', JNum (Fin 1)), (''vendor'', JStr ''Acme'')])
              else if i = JNum (Fin 3) then Inr (row_of_type ''service'')
              else Inr JUndefined),
      Model_save = (\<lambda>m g. Inr ()),
      GoodModel_archive = (\<lambda>i a. Inr (JNum (Fin 1))),
      completion = (\<lambda>ids. rev [0..<length ids]),
      GoodModel_getAllGoods = Inr [row_of_type ''raw'', row_of_type ''service''],
      GoodModel_getByType =
        (\<lambda>type archived. if type = JStr ''service''
                          then if archived then Inr [retired_row_of_type ''service'']
                               else Inr [row_of_type ''service'']
                          else Inr [])\<rparr>"

text \<open>The same repository during an outage: every lookup throws.\<close>

definition outage :: repository where
  "outage = stock\<lparr>GoodModel_findById := (\<lambda>i. Inl RepositoryError)\<rparr>"

definition componentRef :: "real \<Rightarrow> real \<Rightarrow> jsval" where
  "componentRef i q = JObj [(''id'', JNum (Fin i)), (''quantity'', JNum (Fin q))]"

text \<open>
  Candidates: \<open>steel_rod\<close>, \<open>frame\<close> and \<open>desk\<close> are well-formed, each of the others
  has one defect.
\<close>

definition steel_rod :: jsval where
  "steel_rod =
     JObj [(''name'', JStr ''Steel Rod''), (''type'', JStr ''raw''), (''cost'', JNum (Fin 5)),
           (''processTime'', JNum (Fin 1)), (''vendor'', JStr ''Acme'')]"

definition frame :: jsval where
  "frame =
     JObj [(''name'', JStr ''Frame''), (''type'', JStr ''semi-finished''),
           (''cost'', JNum (Fin 12)), (''processTime'', JNum (Fin 3)),
           (''properties'', JArr [JObj [(''name'', JStr ''colour''), (''value'', JStr [])]]),
           (''components'', JArr [componentRef 7 2])]"

definition unnamed_good :: jsval where
  "unnamed_good =
     JObj [(''name'', JStr []), (''type'', JStr ''semi-finished''), (''cost'', JNum (Fin 5)),
           (''processTime'', JNum (Fin 1))]"

definition numbered_good :: jsval where
  "numbered_good =
     JObj [(''name'', JNum (Fin 5)), (''type'', JStr ''semi-finished''),
           (''cost'', JNum (Fin 5)), (''processTime'', JNum (Fin 1))]"

definition bad_properties :: jsval where
  "bad_properties =
     JObj [(''name'', JStr ''Bolt''), (''type'', JStr ''semi-finished''),
           (''cost'', JNum (Fin 1)), (''processTime'', JNum (Fin 1)),
           (''properties'', JNum (Fin 5))]"

definition bad_components :: jsval where
  "bad_components =
     JObj [(''name'', JStr ''Bolt''), (''type'', JStr ''semi-finished''),
           (''cost'', JNum (Fin 1)), (''processTime'', JNum (Fin 1)),
           (''components'', JStr ''7'')]"

definition nan_price :: jsval where
  "nan_price =
     JObj [(''name'', JStr ''Chair''), (''type'', JStr ''finished''), (''cost'', JNum (Fin 1)),
           (''processTime'', JNum (Fin 1)), (''price'', JNum NaN)]"

definition desk :: jsval where
  "desk =
     JObj [(''name'', JStr ''Desk''), (''type'', JStr ''finished''), (''cost'', JNum (Fin 40)),
           (''processTime'', JNum (Fin 6)), (''price'', JNum (Fin 99)),
           (''components'', JArr [componentRef 7 4, componentRef 99 1])]"

section \<open>Properties of the JavaScript primitives\<close>

lemma map_of_filter_key:
  "map_of (filter (\<lambda>kv. fst kv \<noteq> k) fs) = (map_of fs)(k := None)"
  by (induction fs) (auto simp: fun_eq_iff)

lemma ownProps_deleteProp: "ownProps (deleteProp g k) = (ownProps g)(k := None)"
  by (cases g) (simp_all add: map_of_filter_key)

lemma getProp_deleteProp: "k' \<noteq> k \<Longrightarrow> getProp (deleteProp g k) k' = getProp g k'"
  by (cases g) (simp_all add: map_of_filter_key)

lemma deleteProp_twice: "deleteProp (deleteProp g k) k = deleteProp g k"
  by (cases g) simp_all

lemma deleteProp_pair_twice:
  "deleteProp (deleteProp (deleteProp (deleteProp g k) k') k) k' =
   deleteProp (deleteProp g k) k'"
  by (cases g) (simp_all add: conj_commute conj_left_commute)

lemma filter_by_position:
  "map (\<lambda>n. xs ! n) (filter (\<lambda>n. n < length xs \<and> P (xs ! n)) [0..<length xs]) = filter P xs"
proof -
  have "filter P xs = filter P (map (\<lambda>n. xs ! n) [0..<length xs])"
    by (simp add: map_nth)
  also have "\<dots> = map (\<lambda>n. xs ! n) (filter (\<lambda>n. P (xs ! n)) [0..<length xs])"
    by (simp add: filter_map comp_def)
  also have "filter (\<lambda>n. P (xs ! n)) [0..<length xs] =
             filter (\<lambda>n. n < length xs \<and> P (xs ! n)) [0..<length xs]"
    by (rule filter_cong) auto
  finally show ?thesis by simp
qed

text \<open>
  Whatever the order in which the positions of a list complete, the elements picked at
  the positions that satisfy a test are the elements of the list that satisfy it, each as
  often as it occurs.
\<close>

lemma mset_in_completion_order:
  assumes "mset sched = mset [0..<length xs]"
  shows "mset (map (\<lambda>n. xs ! n) (filter (\<lambda>n. n < length xs \<and> P (xs ! n)) sched)) =
         mset (filter P xs)"
proof -
  have "mset (map (\<lambda>n. xs ! n) (filter (\<lambda>n. n < length xs \<and> P (xs ! n)) sched)) =
        image_mset (\<lambda>n. xs ! n)
          (filter_mset (\<lambda>n. n < length xs \<and> P (xs ! n)) (mset sched))"
    by simp
  also have "\<dots> = mset (map (\<lambda>n. xs ! n)
                       (filter (\<lambda>n. n < length xs \<and> P (xs ! n)) [0..<length xs]))"
    unfolding assms by simp
  finally show ?thesis by (simp only: filter_by_position)
qed

section \<open>Lookups\<close>

lemma cleanUpGood_truthy: "truthy row \<Longrightarrow> \<exists>cleaned. cleanUpGood row = Inr cleaned"
  by (cases row) (simp_all add: cleanUpGood_def)

lemma status_getSingleGood:
  assumes "GoodModel_findById env i = Inr row"
  shows "status (fst (getSingleGood env i)) = truthy row"
proof (cases "truthy row")
  case True
  then obtain cleaned where "cleanUpGood row = Inr cleaned"
    using cleanUpGood_truthy by blast
  with True assms show ?thesis by (simp add: getSingleGood_def)
next
  case False
  with assms show ?thesis by (simp add: getSingleGood_def)
qed

text \<open>A lookup that throws is answered like a miss, with status false.\<close>

lemma status_getSingleGood_error:
  "GoodModel_findById env i = Inl e \<Longrightarrow> status (fst (getSingleGood env i)) = False"
  by (simp add: getSingleGood_def)

lemma snd_getSingleGood: "snd (getSingleGood env i) = [FindById i]"
  by (simp add: getSingleGood_def)

section \<open>Validation\<close>

text \<open>
  C1. The claim: a candidate whose name is not a non-empty text value, in particular one
  whose name is the empty string, is rejected. The validator tests only
  \<^verbatim>\<open>typeof good.name !== 'string'\<close>, and the empty string is a string: the candidate
  \<open>unnamed_good\<close>, well-formed but for its empty name, is accepted.
\<close>

theorem validateGoodFormat_accepts_empty_name:
  "getProp unnamed_good ''name'' = Inr (JStr []) \<and> validateGoodFormat unnamed_good = Inr True"
  by (simp add: unnamed_good_def validateGoodFormat_def prop_of_def config_good_types_def)

text \<open>
  C1, as the code has it: every candidate whose \<^verbatim>\<open>name\<close> is not a text value (a
  number, a missing name, ...) is rejected with the result false.
\<close>

theorem validateGoodFormat_rejects_non_text_name:
  "getProp g ''name'' = Inr n \<Longrightarrow> typeof n \<noteq> ''string'' \<Longrightarrow> validateGoodFormat g = Inr False"
  by (simp add: validateGoodFormat_def)

theorem validateGoodFormat_rejects_non_text_name_witness:
  "getProp numbered_good ''name'' = Inr (JNum (Fin 5)) \<and>
   typeof (JNum (Fin 5)) \<noteq> ''string'' \<and>
   validateGoodFormat numbered_good = Inr False"
  using validateGoodFormat_rejects_non_text_name [of numbered_good "JNum (Fin 5)"]
  by (simp add: numbered_good_def)

text \<open>
  C2. The claim: on every input, also one whose \<^verbatim>\<open>properties\<close> or \<^verbatim>\<open>components\<close> is
  present and not a sequence, \<^verbatim>\<open>validateGoodFormat\<close> returns a boolean and
  \<^verbatim>\<open>addSingleGood\<close> an envelope, and no exception escapes. The validator calls
  \<^verbatim>\<open>forEach\<close> on any truthy \<^verbatim>\<open>properties\<close> and \<^verbatim>\<open>components\<close> without testing for an
  array, and reads \<^verbatim>\<open>good.name\<close> without testing for null; \<^verbatim>\<open>addSingleGood\<close> calls it
  outside its try block. On a candidate whose \<^verbatim>\<open>properties\<close> is the number 5, on one
  whose \<^verbatim>\<open>components\<close> is the string \<^verbatim>\<open>'7'\<close> and on \<^verbatim>\<open>null\<close> the validator throws a
  TypeError, and \<^verbatim>\<open>addSingleGood\<close> lets it escape, before any call on the repository.
\<close>

theorem validateGoodFormat_throws_on_non_sequence:
  "validateGoodFormat bad_properties = Inl TypeError \<and>
   validateGoodFormat bad_components = Inl TypeError \<and>
   validateGoodFormat JNull = Inl TypeError \<and>
   addSingleGood stock bad_properties = (Inl TypeError, [])"
  by (simp add: bad_properties_def bad_components_def validateGoodFormat_def
      addSingleGood_def prop_of_def config_good_types_def)

text \<open>
  C6. The claim: the validator rejects a cost or a process time that is \<^verbatim>\<open><= 0\<close>, a type
  outside the three, a raw good without a text vendor and a finished good without a
  positive numeric price, and accepts well-formed candidates. The price test is
  \<^verbatim>\<open>typeof good.price !== 'number' || good.price <= 0\<close>; NaN is a number and
  \<^verbatim>\<open>NaN <= 0\<close> is false, so a finished good whose price is NaN, which is no positive
  number, is accepted. (\<^verbatim>\<open>validateComponent\<close> tests \<^verbatim>\<open>> 0\<close> and rejects NaN.)
\<close>

theorem validateGoodFormat_accepts_nan_price:
  "prop_of nan_price ''type'' = JStr ''finished'' \<and>
   prop_of nan_price ''price'' = JNum NaN \<and>
   gt_zero (JNum NaN) = False \<and>
   validateGoodFormat nan_price = Inr True"
  by (simp add: nan_price_def validateGoodFormat_def prop_of_def config_good_types_def)

section \<open>Component check\<close>

text \<open>
  C3. The claim: one lookup per distinct referenced id, and each id that does not resolve
  is reported once. \<^verbatim>\<open>onlyId\<close> is \<^verbatim>\<open>components.map(c => c.id)\<close>, with no removal of
  duplicates: two references to the missing id 99 give two lookups of 99 and the
  result \<^verbatim>\<open>[99, 99]\<close>.
\<close>

theorem checkIfComponentExists_repeats_duplicate_id:
  "checkIfComponentExists stock (JArr [componentRef 99 1, componentRef 99 4]) =
     (Inr [JNum (Fin 99), JNum (Fin 99)],
      [FindById (JNum (Fin 99)), FindById (JNum (Fin 99))])"
  by (simp add: componentRef_def stock_def getSingleGood_def upt_rec)

text \<open>
  C3, as the code has it: for every sequence of component references whose lookups are
  all answered, in whatever order they complete, \<^verbatim>\<open>checkIfComponentExists\<close> issues one
  lookup per reference, in the order of the references, and returns the ids that the
  repository does not find, each as often as it is referenced: all of them, not the first
  only. For the references to 7 and 99, where 7 exists and 99 does not, it returns
  \<^verbatim>\<open>[99]\<close>.
\<close>

theorem checkIfComponentExists_reports_each_missing_reference:
  assumes ids: "array_map (\<lambda>c. getProp c ''id'') components = Inr onlyId"
    and sched: "mset (completion env onlyId) = mset [0..<length onlyId]"
    and answered: "\<forall>i \<in> set onlyId. \<exists>row. GoodModel_findById env i = Inr row"
  shows "\<exists>invalid.
           checkIfComponentExists env (JArr components) =
             (Inr invalid, map FindById onlyId) \<and>
           mset invalid = mset (filter (not_found env) onlyId)"
proof -
  let ?P = "\<lambda>i. \<not> status (fst (getSingleGood env i))"
  let ?invalid = "map (\<lambda>n. onlyId ! n)
                    (filter (\<lambda>n. n < length onlyId \<and> ?P (onlyId ! n))
                       (completion env onlyId))"
  have run: "checkIfComponentExists env (JArr components) =
               (Inr ?invalid, map FindById onlyId)"
    using ids by (simp add: snd_getSingleGood)
  have "filter ?P onlyId = filter (not_found env) onlyId"
  proof (rule filter_cong)
    fix i assume "i \<in> set onlyId"
    then obtain row where "GoodModel_findById env i = Inr row"
      using answered by blast
    then show "?P i = not_found env i"
      by (simp add: status_getSingleGood not_found_def)
  qed simp
  then have "mset ?invalid = mset (filter (not_found env) onlyId)"
    using mset_in_completion_order [OF sched, of ?P] by simp
  with run show ?thesis by blast
qed

theorem checkIfComponentExists_reports_each_missing_reference_witness:
  "checkIfComponentExists stock (JArr [componentRef 7 2, componentRef 99 1]) =
     (Inr [JNum (Fin 99)], [FindById (JNum (Fin 7)), FindById (JNum (Fin 99))])"
proof -
  have ids: "array_map (\<lambda>c. getProp c ''id'') [componentRef 7 2, componentRef 99 1] =
             Inr [JNum (Fin 7), JNum (Fin 99)]"
    by (simp add: componentRef_def)
  have sched: "mset (completion stock [JNum (Fin 7), JNum (Fin 99)]) =
               mset [0..<length [JNum (Fin 7), JNum (Fin 99)]]"
    by (simp add: stock_def upt_rec)
  have answered: "\<forall>i \<in> set [JNum (Fin 7), JNum (Fin 99)].
                    \<exists>row. GoodModel_findById stock i = Inr row"
    by (simp add: stock_def)
  have missing: "filter (not_found stock) [JNum (Fin 7), JNum (Fin 99)] = [JNum (Fin 99)]"
    by (simp add: not_found_def stock_def)
  from checkIfComponentExists_reports_each_missing_reference [OF ids sched answered] missing
  show ?thesis by auto
qed

text \<open>
  C4. The claim: an id is reported as invalid exactly when the lookup finds no good; a
  repository error thrown during the lookup does not count as the component being
  invalid. \<^verbatim>\<open>getSingleGood\<close> catches the error and returns status false, as it does for a
  miss, and \<^verbatim>\<open>checkIfComponentExists\<close>, documented to return the non existing
  components, tests the status only: during an outage the good of id 7, which the
  repository holds, is reported as not existing.
\<close>

theorem checkIfComponentExists_reports_failed_lookup:
  "GoodModel_findById outage (JNum (Fin 7)) = Inl RepositoryError \<and>
   not_found outage (JNum (Fin 7)) = False \<and>
   checkIfComponentExists outage (JArr [componentRef 7 1]) =
     (Inr [JNum (Fin 7)], [FindById (JNum (Fin 7))])"
  by (simp add: outage_def stock_def not_found_def componentRef_def getSingleGood_def)

section \<open>Redaction of a good\<close>

text \<open>
  C5. Redaction removes exactly the field \<^verbatim>\<open>price\<close> from a raw good, exactly the fields
  \<^verbatim>\<open>price\<close> and \<^verbatim>\<open>vendor\<close> from a semi-finished good and exactly the field \<^verbatim>\<open>vendor\<close>
  from a finished good: the properties of the result are those of the good with the
  named fields absent and every other field as it was.
\<close>

theorem cleanUpGood_removes_exactly:
  "(getProp g ''type'' = Inr (JStr ''raw'') \<longrightarrow>
      (\<exists>g'. cleanUpGood g = Inr g' \<and> ownProps g' = (ownProps g)(''price'' := None))) \<and>
   (getProp g ''type'' = Inr (JStr ''semi-finished'') \<longrightarrow>
      (\<exists>g'. cleanUpGood g = Inr g' \<and>
            ownProps g' = (ownProps g)(''price'' := None, ''vendor'' := None))) \<and>
   (getProp g ''type'' = Inr (JStr ''finished'') \<longrightarrow>
      (\<exists>g'. cleanUpGood g = Inr g' \<and> ownProps g' = (ownProps g)(''vendor'' := None)))"
  by (simp add: cleanUpGood_def ownProps_deleteProp)

theorem cleanUpGood_removes_exactly_witness:
  "cleanUpGood (row_of_type ''raw'') =
     Inr (JObj [(''id'', JNum (Fin 3)), (''name'', JStr ''Item''), (''type'', JStr ''raw''),
                (''vendor'', JStr ''Acme''), (''archived'', JBool False)]) \<and>
   cleanUpGood (row_of_type ''semi-finished'') =
     Inr (JObj [(''id'', JNum (Fin 3)), (''name'', JStr ''Item''),
                (''type'', JStr ''semi-finished''), (''archived'', JBool False)]) \<and>
   cleanUpGood (row_of_type ''finished'') =
     Inr (JObj [(''id'', JNum (Fin 3)), (''name'', JStr ''Item''),
                (''type'', JStr ''finished''), (''price'', JNum (Fin 9)),
                (''archived'', JBool False)])"
  using cleanUpGood_removes_exactly [of "row_of_type ''raw''"]
    cleanUpGood_removes_exactly [of "row_of_type ''semi-finished''"]
    cleanUpGood_removes_exactly [of "row_of_type ''finished''"]
  by (simp add: row_of_type_def cleanUpGood_def)

text \<open>
  C7. Redaction is idempotent: redacting the result of a redaction gives that result
  again (and a redaction that throws, on \<^verbatim>\<open>null\<close> or \<^verbatim>\<open>undefined\<close>, throws the same).
\<close>

theorem cleanUpGood_idempotent:
  "(case cleanUpGood g of Inl e \<Rightarrow> Inl e | Inr g' \<Rightarrow> cleanUpGood g') = cleanUpGood g"
proof (cases "getProp g ''type''")
  case (Inl e)
  then show ?thesis by (simp add: cleanUpGood_def)
next
  case (Inr t)
  have price: "getProp (deleteProp g ''price'') ''type'' = Inr t"
    using Inr by (simp add: getProp_deleteProp)
  have vendor: "getProp (deleteProp g ''vendor'') ''type'' = Inr t"
    using Inr by (simp add: getProp_deleteProp)
  have both: "getProp (deleteProp (deleteProp g ''price'') ''vendor'') ''type'' = Inr t"
    using Inr by (simp add: getProp_deleteProp)
  show ?thesis
    using Inr price vendor both
    by (simp add: cleanUpGood_def deleteProp_twice deleteProp_pair_twice)
qed

text \<open>
  The redaction of a list: when no row is \<^verbatim>\<open>null\<close> or \<^verbatim>\<open>undefined\<close> it returns one
  redacted row per row, in order.
\<close>

lemma cleanUpGood_returns:
  assumes "x \<noteq> JNull" "x \<noteq> JUndefined"
  shows "\<exists>y. cleanUpGood x = Inr y"
proof -
  obtain t where "getProp x ''type'' = Inr t"
    using assms by (cases x) simp_all
  then have "\<not> isl (cleanUpGood x)"
    by (simp add: cleanUpGood_def)
  then show ?thesis by (cases "cleanUpGood x") simp_all
qed

lemma array_map_returns:
  "\<forall>x \<in> set xs. \<exists>y. f x = Inr y \<Longrightarrow> \<exists>ys. array_map f xs = Inr ys \<and> map Inr ys = map f xs"
proof (induction xs)
  case Nil
  show ?case by simp
next
  case (Cons x xs)
  then obtain y where y: "f x = Inr y" by auto
  from Cons obtain ys where "array_map f xs = Inr ys" "map Inr ys = map f xs" by auto
  with y show ?case by simp
qed

lemma cleanUpMultipleOfGoods_returns:
  assumes "\<forall>x \<in> set goods. x \<noteq> JNull \<and> x \<noteq> JUndefined"
  shows "\<exists>cleaned. cleanUpMultipleOfGoods goods = Inr cleaned \<and>
                   map Inr cleaned = map cleanUpGood goods"
  unfolding cleanUpMultipleOfGoods_def
  by (rule array_map_returns) (use assms cleanUpGood_returns in blast)

text \<open>
  C10. A good whose \<^verbatim>\<open>type\<close> is none of raw, semi-finished and finished matches no case
  of the switch: redaction returns it with all of its fields, and so it passes through
  every read operation unredacted. \<^verbatim>\<open>getSingleGood\<close> answers with the good itself as its
  payload when the repository finds it; and when the repository answers with rows of
  which none is \<^verbatim>\<open>null\<close> or \<^verbatim>\<open>undefined\<close>, \<^verbatim>\<open>cleanUpMultipleOfGoods\<close>, \<^verbatim>\<open>getAllGoods\<close>,
  \<^verbatim>\<open>getAllGoodsOfType\<close> and \<^verbatim>\<open>getAllArchivedGoodsOfType\<close> return one row per row, with
  the good itself at each position where the repository has it.
\<close>

theorem unknown_type_passes_reads_unredacted:
  assumes type: "getProp g ''type'' = Inr t"
    and other: "t \<noteq> JStr ''raw''" "t \<noteq> JStr ''semi-finished''" "t \<noteq> JStr ''finished''"
  shows "cleanUpGood g = Inr g \<and>
         (truthy g \<and> GoodModel_findById env i = Inr g \<longrightarrow>
            getSingleGood env i = (\<lparr>status = True, message = Payload g\<rparr>, [FindById i])) \<and>
         ((\<forall>x \<in> set goods. x \<noteq> JNull \<and> x \<noteq> JUndefined) \<and> n < length goods \<and> goods ! n = g \<longrightarrow>
            (\<exists>cleaned.
               cleanUpMultipleOfGoods goods = Inr cleaned \<and>
               length cleaned = length goods \<and> cleaned ! n = g \<and>
               (GoodModel_getAllGoods env = Inr goods \<longrightarrow>
                  getAllGoods env =
                    (\<lparr>status = True, message = Payload (JArr cleaned)\<rparr>, [GetAllGoods])) \<and>
               (GoodModel_getByType env type False = Inr goods \<longrightarrow>
                  getAllGoodsOfType env type =
                    (\<lparr>status = True, message = Payload (JArr cleaned)\<rparr>,
                     [GetByType type False])) \<and>
               (GoodModel_getByType env type True = Inr goods \<longrightarrow>
                  getAllArchivedGoodsOfType env type =
                    (\<lparr>status = True, message = Payload (JArr cleaned)\<rparr>,
                     [GetByType type True]))))"
proof -
  have single: "cleanUpGood g = Inr g"
    using type other by (simp add: cleanUpGood_def)
  have lookup: "truthy g \<and> GoodModel_findById env i = Inr g \<longrightarrow>
                getSingleGood env i = (\<lparr>status = True, message = Payload g\<rparr>, [FindById i])"
    using single by (simp add: getSingleGood_def)
  have many: "\<exists>cleaned.
                cleanUpMultipleOfGoods goods = Inr cleaned \<and>
                length cleaned = length goods \<and> cleaned ! n = g \<and>
                (GoodModel_getAllGoods env = Inr goods \<longrightarrow>
                   getAllGoods env =
                     (\<lparr>status = True, message = Payload (JArr cleaned)\<rparr>, [GetAllGoods])) \<and>
                (GoodModel_getByType env type False = Inr goods \<longrightarrow>
                   getAllGoodsOfType env type =
                     (\<lparr>status = True, message = Payload (JArr cleaned)\<rparr>,
                      [GetByType type False])) \<and>
                (GoodModel_getByType env type True = Inr goods \<longrightarrow>
                   getAllArchivedGoodsOfType env type =
                     (\<lparr>status = True, message = Payload (JArr cleaned)\<rparr>,
                      [GetByType type True]))"
    if rows: "\<forall>x \<in> set goods. x \<noteq> JNull \<and> x \<noteq> JUndefined"
      and n: "n < length goods" and at: "goods ! n = g"
  proof -
    obtain cleaned where run: "cleanUpMultipleOfGoods goods = Inr cleaned"
      and each: "map Inr cleaned = map cleanUpGood goods"
      using cleanUpMultipleOfGoods_returns [OF rows] by blast
    have len: "length cleaned = length goods"
      using each by (metis length_map)
    have "(map Inr cleaned ! n :: error + jsval) = map cleanUpGood goods ! n"
      using each by simp
    then have "(Inr (cleaned ! n) :: error + jsval) = cleanUpGood (goods ! n)"
      using n len by simp
    then have here: "cleaned ! n = g"
      using at single by simp
    show ?thesis
      using run len here
      by (simp add: getAllGoods_def getAllGoodsOfType_def getAllArchivedGoodsOfType_def)
  qed
  from single lookup many show ?thesis by blast
qed

theorem unknown_type_passes_reads_unredacted_witness:
  "cleanUpGood (row_of_type ''service'') = Inr (row_of_type ''service'') \<and>
   ownProps (row_of_type ''service'') ''price'' = Some (JNum (Fin 9)) \<and>
   ownProps (row_of_type ''service'') ''vendor'' = Some (JStr ''Acme'') \<and>
   getSingleGood stock (JNum (Fin 3)) =
     (\<lparr>status = True, message = Payload (row_of_type ''service'')\<rparr>,
      [FindById (JNum (Fin 3))]) \<and>
   cleanUpMultipleOfGoods [row_of_type ''raw'', row_of_type ''service''] =
     Inr [deleteProp (row_of_type ''raw'') ''price'', row_of_type ''service''] \<and>
   getAllGoods stock =
     (\<lparr>status = True,
       message = Payload (JArr [deleteProp (row_of_type ''raw'') ''price'',
                                row_of_type ''service''])\<rparr>,
      [GetAllGoods]) \<and>
   getAllGoodsOfType stock (JStr ''service'') =
     (\<lparr>status = True, message = Payload (JArr [row_of_type ''service''])\<rparr>,
      [GetByType (JStr ''service'') False]) \<and>
   getAllArchivedGoodsOfType stock (JStr ''service'') =
     (\<lparr>status = True, message = Payload (JArr [retired_row_of_type ''service''])\<rparr>,
      [GetByType (JStr ''service'') True])"
  using unknown_type_passes_reads_unredacted
      [where g = "row_of_type ''service''" and t = "JStr ''service''" and env = stock
         and i = "JNum (Fin 3)" and goods = "[row_of_type ''raw'', row_of_type ''service'']"
         and n = 1 and type = "JStr ''service''"]
    unknown_type_passes_reads_unredacted
      [where g = "row_of_type ''service''" and t = "JStr ''service''" and env = stock
         and i = "JNum (Fin 3)" and goods = "[row_of_type ''service'']"
         and n = 0 and type = "JStr ''service''"]
    unknown_type_passes_reads_unredacted
      [where g = "retired_row_of_type ''service''" and t = "JStr ''service''" and env = stock
         and i = "JNum (Fin 4)" and goods = "[retired_row_of_type ''service'']"
         and n = 0 and type = "JStr ''service''"]
  by (simp add: row_of_type_def retired_row_of_type_def stock_def cleanUpGood_def
      cleanUpMultipleOfGoods_def getSingleGood_def getAllGoods_def getAllGoodsOfType_def
      getAllArchivedGoodsOfType_def)

section \<open>Adding goods\<close>

text \<open>
  C8. For every candidate that the validator rejects, \<^verbatim>\<open>addSingleGood\<close> makes no call on
  the repository, so no save, and returns the envelope of status false with the
  validation failure message and the candidate itself.
\<close>

theorem addSingleGood_rejected_candidate_not_saved:
  "validateGoodFormat g = Inr False \<Longrightarrow>
   addSingleGood env g =
     (Inr \<lparr>status = False, message = Text ''Failed while validating good'', good = g\<rparr>, [])"
  by (simp add: addSingleGood_def)

theorem addSingleGood_rejected_candidate_not_saved_witness:
  "validateGoodFormat numbered_good = Inr False \<and>
   addSingleGood stock numbered_good =
     (Inr \<lparr>status = False, message = Text ''Failed while validating good'',
           good = numbered_good\<rparr>, [])"
proof -
  have rejected: "validateGoodFormat numbered_good = Inr False"
    by (simp add: numbered_good_def validateGoodFormat_def)
  from rejected addSingleGood_rejected_candidate_not_saved [OF rejected, of stock]
  show ?thesis by simp
qed

text \<open>
  C9. The claim: \<^verbatim>\<open>addBulkGoods\<close> and \<^verbatim>\<open>archiveMultipleGoods\<close> return one result per
  element, in order, and the failure of one element, of any kind, leaves the results of
  the others as they would be. Both join their elements with \<^verbatim>\<open>Promise.all\<close>, which
  rejects when one promise rejects: the candidate whose \<^verbatim>\<open>properties\<close> is the number 5
  makes its \<^verbatim>\<open>addSingleGood\<close> throw, and a null entry makes the archive callback throw.
  The batch then returns no results at all, although its other elements are well-formed.
\<close>

theorem bulk_operations_abort_on_throwing_element:
  "addBulkGoods stock [steel_rod, bad_properties, frame] = Inl TypeError \<and>
   archiveMultipleGoods stock
     [JObj [(''id'', JNum (Fin 7)), (''archive'', JBool True)], JNull] = Inl TypeError"
  by (simp add: addBulkGoods_def archiveMultipleGoods_def addSingleGood_def steel_rod_def
      bad_properties_def validateGoodFormat_def prop_of_def config_good_types_def
      saveGood_def stock_def)

section \<open>What the validator does accept and reject\<close>

lemma gt_zero_number: "gt_zero v \<Longrightarrow> typeof v = ''number'' \<and> \<not> le_zero v"
proof (cases v)
  case (JNum n)
  assume "gt_zero v"
  with JNum show ?thesis by (cases n) simp_all
qed simp_all

lemma forEach_valid_all:
  "\<forall>x \<in> set xs. check x = Inr True \<Longrightarrow> forEach_valid check xs valid = Inr valid"
  by (induction xs arbitrary: valid) simp_all

lemma forEach_valid_returns:
  "\<forall>x \<in> set xs. \<exists>b. check x = Inr b \<Longrightarrow> \<exists>b. forEach_valid check xs valid = Inr b"
proof (induction xs arbitrary: valid)
  case Nil
  show ?case by simp
next
  case (Cons x xs)
  then obtain b where "check x = Inr b" by auto
  with Cons show ?case by simp
qed

lemma validateProperties_returns:
  "getProp p ''name'' = Inr n \<Longrightarrow> \<exists>b. validateProperties p = Inr b"
  by (simp add: validateProperties_def)

lemma validateComponent_returns:
  "getProp c ''id'' = Inr n \<Longrightarrow> \<exists>b. validateComponent c = Inr b"
  by (simp add: validateComponent_def)

lemma getProp_not_nullish: "v \<noteq> JNull \<Longrightarrow> v \<noteq> JUndefined \<Longrightarrow> \<exists>x. getProp v k = Inr x"
  by (cases v) simp_all

lemma checkEntries_returns:
  assumes "\<not> truthy v \<or> (\<exists>xs. v = JArr xs \<and> JNull \<notin> set xs \<and> JUndefined \<notin> set xs)"
    and "\<And>x. x \<noteq> JNull \<Longrightarrow> x \<noteq> JUndefined \<Longrightarrow> \<exists>b. check x = Inr b"
  shows "\<exists>b. checkEntries check v = Inr b"
proof (cases v)
  case (JArr xs)
  with assms(1) have "JNull \<notin> set xs" "JUndefined \<notin> set xs" by auto
  then have "\<forall>x \<in> set xs. \<exists>b. check x = Inr b"
    using assms(2) by metis
  then show ?thesis using JArr by (simp add: forEach_valid_returns)
qed (use assms(1) in auto)

text \<open>
  The validator accepts every candidate with a text name, one of the three types, a
  cost and a process time that are \<^verbatim>\<open>> 0\<close>, a text vendor when raw, a price \<^verbatim>\<open>> 0\<close> when
  finished, and whose properties and components are absent or sequences of entries
  that pass their own checks.
\<close>

theorem validateGoodFormat_accepts_well_formed:
  assumes name: "getProp g ''name'' = Inr n" "typeof n = ''string''"
    and type: "js_includes config_good_types (prop_of g ''type'')"
    and cost: "gt_zero (prop_of g ''cost'')"
    and time: "gt_zero (prop_of g ''processTime'')"
    and vendor: "prop_of g ''type'' = JStr ''raw'' \<longrightarrow> typeof (prop_of g ''vendor'') = ''string''"
    and price: "prop_of g ''type'' = JStr ''finished'' \<longrightarrow> gt_zero (prop_of g ''price'')"
    and props: "prop_of g ''properties'' = JUndefined \<or>
                (\<exists>ps. prop_of g ''properties'' = JArr ps \<and>
                      (\<forall>p \<in> set ps. validateProperties p = Inr True))"
    and comps: "prop_of g ''components'' = JUndefined \<or>
                (\<exists>cs. prop_of g ''components'' = JArr cs \<and>
                      (\<forall>c \<in> set cs. validateComponent c = Inr True))"
  shows "validateGoodFormat g = Inr True"
proof -
  have t: "typeof (prop_of g ''type'') = ''string''"
    using type by (cases "prop_of g ''type''") simp_all
  have p: "checkEntries validateProperties (prop_of g ''properties'') = Inr True"
    using props by (auto simp: forEach_valid_all)
  have c: "checkEntries validateComponent (prop_of g ''components'') = Inr True"
    using comps by (auto simp: forEach_valid_all)
  show ?thesis
    using name type t vendor price p c gt_zero_number [OF cost] gt_zero_number [OF time]
      gt_zero_number [of "prop_of g ''price''"]
    by (simp add: validateGoodFormat_def)
qed

theorem validateGoodFormat_accepts_well_formed_witness:
  "validateGoodFormat steel_rod = Inr True \<and> validateGoodFormat frame = Inr True \<and>
   validateGoodFormat desk = Inr True"
  using validateGoodFormat_accepts_well_formed [of steel_rod "JStr ''Steel Rod''"]
    validateGoodFormat_accepts_well_formed [of frame "JStr ''Frame''"]
    validateGoodFormat_accepts_well_formed [of desk "JStr ''Desk''"]
  by (simp add: steel_rod_def frame_def desk_def componentRef_def prop_of_def
      config_good_types_def validateProperties_def validateComponent_def)

text \<open>
  The validator rejects, with the result false, every candidate whose cost or
  process time is \<^verbatim>\<open><= 0\<close>, whose type is not one of the three, that is raw with a vendor
  that is not text, or that is finished with a price that is not a number or is
  \<^verbatim>\<open><= 0\<close>.
\<close>

theorem validateGoodFormat_rejects_out_of_range:
  assumes "getProp g ''name'' = Inr n"
    and "le_zero (prop_of g ''cost'') \<or> le_zero (prop_of g ''processTime'') \<or>
         \<not> js_includes config_good_types (prop_of g ''type'') \<or>
         (prop_of g ''type'' = JStr ''raw'' \<and> typeof (prop_of g ''vendor'') \<noteq> ''string'') \<or>
         (prop_of g ''type'' = JStr ''finished'' \<and>
            (typeof (prop_of g ''price'') \<noteq> ''number'' \<or> le_zero (prop_of g ''price'')))"
  shows "validateGoodFormat g = Inr False"
  using assms by (auto simp: validateGoodFormat_def)

theorem validateGoodFormat_rejects_out_of_range_witness:
  "validateGoodFormat
     (JObj [(''name'', JStr ''Nut''), (''type'', JStr ''raw''), (''cost'', JNum (Fin 0)),
            (''processTime'', JNum (Fin 1)), (''vendor'', JStr ''Acme'')]) = Inr False \<and>
   validateGoodFormat
     (JObj [(''name'', JStr ''Nut''), (''type'', JStr ''service''), (''cost'', JNum (Fin 1)),
            (''processTime'', JNum (Fin 1))]) = Inr False \<and>
   validateGoodFormat
     (JObj [(''name'', JStr ''Nut''), (''type'', JStr ''raw''), (''cost'', JNum (Fin 1)),
            (''processTime'', JNum (Fin 1))]) = Inr False \<and>
   validateGoodFormat
     (JObj [(''name'', JStr ''Nut''), (''type'', JStr ''finished''), (''cost'', JNum (Fin 1)),
            (''processTime'', JNum (Fin 1)), (''price'', JNum (Fin (- 3)))]) = Inr False"
  using validateGoodFormat_rejects_out_of_range
      [of "JObj [(''name'', JStr ''Nut''), (''type'', JStr ''raw''), (''cost'', JNum (Fin 0)),
                 (''processTime'', JNum (Fin 1)), (''vendor'', JStr ''Acme'')]" "JStr ''Nut''"]
    validateGoodFormat_rejects_out_of_range
      [of "JObj [(''name'', JStr ''Nut''), (''type'', JStr ''service''),
                 (''cost'', JNum (Fin 1)), (''processTime'', JNum (Fin 1))]" "JStr ''Nut''"]
    validateGoodFormat_rejects_out_of_range
      [of "JObj [(''name'', JStr ''Nut''), (''type'', JStr ''raw''), (''cost'', JNum (Fin 1)),
                 (''processTime'', JNum (Fin 1))]" "JStr ''Nut''"]
    validateGoodFormat_rejects_out_of_range
      [of "JObj [(''name'', JStr ''Nut''), (''type'', JStr ''finished''),
                 (''cost'', JNum (Fin 1)), (''processTime'', JNum (Fin 1)),
                 (''price'', JNum (Fin (- 3)))]" "JStr ''Nut''"]
  by (simp add: prop_of_def config_good_types_def)

text \<open>
  The validator returns a boolean, and throws nothing, on every candidate that is not
  \<^verbatim>\<open>null\<close> or \<^verbatim>\<open>undefined\<close> and whose properties and components are each falsy or a
  sequence without \<^verbatim>\<open>null\<close> and \<^verbatim>\<open>undefined\<close> entries.
\<close>

theorem validateGoodFormat_returns_on_sequences:
  assumes g: "g \<noteq> JNull" "g \<noteq> JUndefined"
    and props: "\<not> truthy (prop_of g ''properties'') \<or>
                (\<exists>ps. prop_of g ''properties'' = JArr ps \<and>
                      JNull \<notin> set ps \<and> JUndefined \<notin> set ps)"
    and comps: "\<not> truthy (prop_of g ''components'') \<or>
                (\<exists>cs. prop_of g ''components'' = JArr cs \<and>
                      JNull \<notin> set cs \<and> JUndefined \<notin> set cs)"
  shows "\<exists>b. validateGoodFormat g = Inr b"
proof -
  obtain n where n: "getProp g ''name'' = Inr n"
    using g getProp_not_nullish by blast
  obtain bp where bp: "checkEntries validateProperties (prop_of g ''properties'') = Inr bp"
    using checkEntries_returns [OF props, of validateProperties]
      getProp_not_nullish validateProperties_returns by metis
  obtain bc where bc: "checkEntries validateComponent (prop_of g ''components'') = Inr bc"
    using checkEntries_returns [OF comps, of validateComponent]
      getProp_not_nullish validateComponent_returns by metis
  have "\<not> isl (validateGoodFormat g)"
    using n bp bc by (simp add: validateGoodFormat_def)
  then show ?thesis by (cases "validateGoodFormat g") simp_all
qed

theorem validateGoodFormat_returns_on_sequences_witness:
  "(\<exists>b. validateGoodFormat frame = Inr b) \<and> (\<exists>b. validateGoodFormat (JNum (Fin 3)) = Inr b)"
  using validateGoodFormat_returns_on_sequences [of frame]
    validateGoodFormat_returns_on_sequences [of "JNum (Fin 3)"]
  by (simp add: frame_def componentRef_def prop_of_def)

section \<open>Batches whose elements do not throw\<close>

lemma promise_all_Inr: "promise_all (map Inr xs) = Inr xs"
  by (induction xs) simp_all

lemma promise_all_fulfilled:
  "\<forall>p \<in> set ps. \<exists>x. p = Inr x \<Longrightarrow> \<exists>xs. promise_all ps = Inr xs \<and> map Inr xs = ps"
proof (induction ps)
  case Nil
  show ?case by simp
next
  case (Cons p ps)
  then obtain x where p: "p = Inr x" by auto
  from Cons obtain xs where "promise_all ps = Inr xs" "map Inr xs = ps" by auto
  with p show ?case by simp
qed

text \<open>
  When no element makes \<^verbatim>\<open>addSingleGood\<close> throw, \<^verbatim>\<open>addBulkGoods\<close> returns one result
  per candidate, in the order of the candidates, each the result of \<^verbatim>\<open>addSingleGood\<close> on
  that candidate alone: a candidate that is rejected, lacks a component or fails to save
  changes nothing in the results of the others.
\<close>

theorem addBulkGoods_results_in_order:
  assumes "\<forall>g \<in> set goods. \<exists>r. fst (addSingleGood env g) = Inr r"
  shows "\<exists>rs. addBulkGoods env goods = Inr rs \<and>
              map Inr rs = map (\<lambda>g. fst (addSingleGood env g)) goods"
  unfolding addBulkGoods_def
  by (rule promise_all_fulfilled) (use assms in auto)

theorem addBulkGoods_results_in_order_witness:
  "addBulkGoods stock [steel_rod, numbered_good, frame] =
     Inr [\<lparr>status = True, message = Text ''Successfully saved new good'', good = steel_rod\<rparr>,
          \<lparr>status = False, message = Text ''Failed while validating good'',
           good = numbered_good\<rparr>,
          \<lparr>status = True, message = Text ''Successfully saved new good'', good = frame\<rparr>]"
proof -
  have a: "fst (addSingleGood stock steel_rod) =
           Inr \<lparr>status = True, message = Text ''Successfully saved new good'',
                good = steel_rod\<rparr>"
    by (simp add: addSingleGood_def saveGood_def validateGoodFormat_def steel_rod_def
        prop_of_def config_good_types_def stock_def)
  have b: "fst (addSingleGood stock numbered_good) =
           Inr \<lparr>status = False, message = Text ''Failed while validating good'',
                good = numbered_good\<rparr>"
    by (simp add: addSingleGood_def validateGoodFormat_def numbered_good_def)
  have c: "fst (addSingleGood stock frame) =
           Inr \<lparr>status = True, message = Text ''Successfully saved new good'', good = frame\<rparr>"
    by (simp add: addSingleGood_def saveGood_def validateGoodFormat_def frame_def
        componentRef_def validateProperties_def validateComponent_def getSingleGood_def
        cleanUpGood_def prop_of_def config_good_types_def stock_def upt_rec)
  from a b c addBulkGoods_results_in_order [of "[steel_rod, numbered_good, frame]" stock]
  show ?thesis by auto
qed

text \<open>
  When no entry is \<^verbatim>\<open>null\<close> or \<^verbatim>\<open>undefined\<close>, \<^verbatim>\<open>archiveMultipleGoods\<close> returns one
  result per entry, in the order of the entries, each the result of \<^verbatim>\<open>archiveGood\<close> on the
  \<^verbatim>\<open>id\<close> and \<^verbatim>\<open>archive\<close> of that entry.
\<close>

theorem archiveMultipleGoods_results_in_order:
  assumes "\<forall>g \<in> set goods. \<exists>i. getProp g ''id'' = Inr i"
  shows "archiveMultipleGoods env goods =
           Inr (map (\<lambda>g. fst (archiveGood env (prop_of g ''id'') (prop_of g ''archive'')))
                  goods)"
proof -
  have "map (\<lambda>g. case getProp g ''id'' of
                    Inl e \<Rightarrow> Inl e
                  | Inr i \<Rightarrow> Inr (fst (archiveGood env i (prop_of g ''archive'')))) goods =
        map Inr (map (\<lambda>g. fst (archiveGood env (prop_of g ''id'') (prop_of g ''archive'')))
                   goods)"
    using assms by (auto simp: prop_of_def)
  then show ?thesis
    by (simp only: archiveMultipleGoods_def promise_all_Inr)
qed

theorem archiveMultipleGoods_results_in_order_witness:
  "archiveMultipleGoods stock
     [JObj [(''id'', JNum (Fin 7)), (''archive'', JBool True)],
      JObj [(''id'', JNum (Fin 8)), (''archive'', JBool False)]] =
     Inr [\<lparr>status = True,
           message = Template [Lit ''archive'', Lit '' successfull for good with id: '',
                               Hole (JNum (Fin 7))]\<rparr>,
          \<lparr>status = True,
           message = Template [Lit ''un-archive'', Lit '' successfull for good with id: '',
                               Hole (JNum (Fin 8))]\<rparr>]"
  using archiveMultipleGoods_results_in_order
      [of "[JObj [(''id'', JNum (Fin 7)), (''archive'', JBool True)],
            JObj [(''id'', JNum (Fin 8)), (''archive'', JBool False)]]" stock]
  by (simp add: archiveGood_def prop_of_def stock_def)

end
